theory Spec2Isabelle
  imports Complex_Main
begin

section \<open>JavaScript values\<close>

text \<open>
  A JavaScript string is a sequence of 16-bit code units; the model keeps each code
  unit as a number and never relies on the bound. \<open>lit\<close> turns a literal of the
  source into its code units.
\<close>

type_synonym jsstring = "nat list"

definition lit :: "string \<Rightarrow> jsstring" where
  "lit s = map of_char s"

text \<open>What a \<open>throw\<close> carries: the engine's own errors and \<open>new Error(message)\<close>.\<close>

datatype exn = SyntaxError | TypeError | Error jsstring

text \<open>
  The values \<open>JSON.parse\<close> can return. A number is kept as the exact value of its
  literal (the engine rounds it to a double); an object is the list of its members in
  source order, where a later member with the same key wins on lookup.
\<close>

datatype js = JNull | JBool bool | JNumber real | JString jsstring
  | JArray "js list" | JObject "(jsstring \<times> js) list"

text \<open>
  \<open>!!v\<close>: \<open>null\<close>, \<open>false\<close>, \<open>0\<close> and \<open>""\<close> are falsy. A number literal
  rounds to zero exactly when its magnitude is at most \<open>2^-1075\<close>, half of the
  smallest positive double.
\<close>

fun truthy :: "js \<Rightarrow> bool" where
  "truthy JNull = False"
| "truthy (JBool b) = b"
| "truthy (JNumber x) = (\<not> \<bar>x\<bar> * 2 ^ 1075 \<le> 1)"
| "truthy (JString s) = (s \<noteq> [])"
| "truthy (JArray vs) = True"
| "truthy (JObject ms) = True"

text \<open>\<open>!!s\<close> for a value that is a string or \<open>null\<close>.\<close>

definition truthy_string :: "jsstring option \<Rightarrow> bool" where
  "truthy_string s = (case s of None \<Rightarrow> False | Some cs \<Rightarrow> cs \<noteq> [])"

text \<open>
  The property names every object literal inherits from \<open>Object.prototype\<close>; each
  of them holds a function or an object, so each is truthy.
\<close>

definition Object_prototype :: "jsstring list" where
  "Object_prototype = map lit
     [''constructor'', ''__defineGetter__'', ''__defineSetter__'', ''hasOwnProperty'',
      ''__lookupGetter__'', ''__lookupSetter__'', ''isPrototypeOf'',
      ''propertyIsEnumerable'', ''toString'', ''valueOf'', ''__proto__'',
      ''toLocaleString'']"

text \<open>
  \<open>v?.k\<close> for a key \<open>k\<close> that no built-in prototype defines (the model uses it for
  \<open>role\<close> only): \<open>None\<close> is \<open>undefined\<close>.
\<close>

fun own_member :: "(jsstring \<times> js) list \<Rightarrow> jsstring \<Rightarrow> js option" where
  "own_member [] k = None"
| "own_member ((k', v) # ms) k =
     (case own_member ms k of Some w \<Rightarrow> Some w | None \<Rightarrow> if k' = k then Some v else None)"

fun js_get :: "js \<Rightarrow> jsstring \<Rightarrow> js option" where
  "js_get (JObject ms) k = own_member ms k"
| "js_get v k = None"

subsection \<open>JSON.parse\<close>

definition is_ws :: "nat \<Rightarrow> bool" where
  "is_ws c = (c = 32 \<or> c = 9 \<or> c = 10 \<or> c = 13)"

definition skip_ws :: "jsstring \<Rightarrow> jsstring" where
  "skip_ws cs = dropWhile is_ws cs"

definition is_digit :: "nat \<Rightarrow> bool" where
  "is_digit c = (48 \<le> c \<and> c \<le> 57)"

definition digits_value :: "jsstring \<Rightarrow> nat" where
  "digits_value ds = foldl (\<lambda>a d. 10 * a + (d - 48)) 0 ds"

definition hex_value :: "nat \<Rightarrow> nat option" where
  "hex_value c =
     (if 48 \<le> c \<and> c \<le> 57 then Some (c - 48)
      else if 65 \<le> c \<and> c \<le> 70 then Some (c - 55)
      else if 97 \<le> c \<and> c \<le> 102 then Some (c - 87)
      else None)"

text \<open>The two-character escapes: quote, backslash, slash, b, f, n, r, t.\<close>

definition simple_escape :: "nat \<Rightarrow> nat option" where
  "simple_escape e =
     (if e = 34 then Some 34 else if e = 92 then Some 92 else if e = 47 then Some 47
      else if e = 98 then Some 8 else if e = 102 then Some 12 else if e = 110 then Some 10
      else if e = 114 then Some 13 else if e = 116 then Some 9 else None)"

text \<open>The characters of a string after its opening quote, up to the closing one.\<close>

fun parse_chars :: "jsstring \<Rightarrow> (jsstring \<times> jsstring) option" where
  "parse_chars [] = None"
| "parse_chars (c # cs) =
     (if c = 34 then Some ([], cs)
      else if c = 92 then
        (case cs of
           [] \<Rightarrow> None
         | e # es \<Rightarrow>
             if e = 117 then
               (case es of
                  h1 # h2 # h3 # h4 # r \<Rightarrow>
                    (case (hex_value h1, hex_value h2, hex_value h3, hex_value h4) of
                       (Some a, Some b, Some c', Some d) \<Rightarrow>
                         map_option (\<lambda>(s, r'). ((4096 * a + 256 * b + 16 * c' + d) # s, r'))
                           (parse_chars r)
                     | _ \<Rightarrow> None)
                | _ \<Rightarrow> None)
             else
               (case simple_escape e of
                  None \<Rightarrow> None
                | Some u \<Rightarrow> map_option (\<lambda>(s, r'). (u # s, r')) (parse_chars es)))
      else if c < 32 then None
      else map_option (\<lambda>(s, r'). (c # s, r')) (parse_chars cs))"

text \<open>
  A number: an optional minus, an integer part without leading zeros, an optional
  fraction and an optional exponent.
\<close>

definition parse_number :: "jsstring \<Rightarrow> (real \<times> jsstring) option" where
  "parse_number cs =
     (let neg = (case cs of [] \<Rightarrow> False | c # _ \<Rightarrow> c = 45);
          cs1 = (if neg then tl cs else cs);
          ip = (case cs1 of [] \<Rightarrow> [] | c # _ \<Rightarrow> if c = 48 then [48] else takeWhile is_digit cs1);
          cs2 = drop (length ip) cs1
      in if ip = [] then None
         else
           (let has_frac = (case cs2 of [] \<Rightarrow> False | c # _ \<Rightarrow> c = 46);
                fp = (if has_frac then takeWhile is_digit (tl cs2) else []);
                cs3 = (if has_frac then drop (length fp) (tl cs2) else cs2)
            in if has_frac \<and> fp = [] then None
               else
                 (let has_exp = (case cs3 of [] \<Rightarrow> False | c # _ \<Rightarrow> c = 101 \<or> c = 69);
                      cs4 = (if has_exp then tl cs3 else cs3);
                      eneg = (has_exp \<and> (case cs4 of [] \<Rightarrow> False | c # _ \<Rightarrow> c = 45));
                      epos = (has_exp \<and> (case cs4 of [] \<Rightarrow> False | c # _ \<Rightarrow> c = 43));
                      cs5 = (if eneg \<or> epos then tl cs4 else cs4);
                      ep = (if has_exp then takeWhile is_digit cs5 else []);
                      cs6 = drop (length ep) cs5;
                      m = real (digits_value ip) + real (digits_value fp) / 10 ^ length fp;
                      v = (if eneg then m / 10 ^ digits_value ep else m * 10 ^ digits_value ep)
                  in if has_exp \<and> ep = [] then None
                     else Some (if neg then - v else v, cs6))))"

text \<open>
  A value, the elements of an array after its bracket and the members of an object
  after its brace, each with the rest of the text. The tests on lengths serve the
  termination proof only: what a call leaves is shorter than what it was given, so
  they never fail (\<open>parse_elements_eq\<close> and \<open>parse_members_eq\<close> below).
\<close>

function parse_value :: "jsstring \<Rightarrow> (js \<times> jsstring) option"
  and parse_elements :: "jsstring \<Rightarrow> (js list \<times> jsstring) option"
  and parse_members :: "jsstring \<Rightarrow> ((jsstring \<times> js) list \<times> jsstring) option"
where
  "parse_value cs =
     (case cs of
        [] \<Rightarrow> None
      | c # r \<Rightarrow>
          if c = 123 then
            (case skip_ws r of
               [] \<Rightarrow> None
             | d # r' \<Rightarrow> if d = 125 then Some (JObject [], r')
                         else map_option (\<lambda>(ms, r''). (JObject ms, r'')) (parse_members (d # r')))
          else if c = 91 then
            (case skip_ws r of
               [] \<Rightarrow> None
             | d # r' \<Rightarrow> if d = 93 then Some (JArray [], r')
                         else map_option (\<lambda>(vs, r''). (JArray vs, r'')) (parse_elements (d # r')))
          else if c = 34 then map_option (\<lambda>(s, r'). (JString s, r')) (parse_chars r)
          else if take 4 cs = lit ''null'' then Some (JNull, drop 4 cs)
          else if take 4 cs = lit ''true'' then Some (JBool True, drop 4 cs)
          else if take 5 cs = lit ''false'' then Some (JBool False, drop 5 cs)
          else map_option (\<lambda>(x, r'). (JNumber x, r')) (parse_number cs))"
| "parse_elements cs =
     (case parse_value (skip_ws cs) of
        None \<Rightarrow> None
      | Some (v, r) \<Rightarrow>
          (case skip_ws r of
             [] \<Rightarrow> None
           | d # r' \<Rightarrow>
               if d = 93 then Some ([v], r')
               else if d = 44 \<and> length r' < length cs
               then map_option (\<lambda>(vs, r''). (v # vs, r'')) (parse_elements r')
               else None))"
| "parse_members cs =
     (case skip_ws cs of
        [] \<Rightarrow> None
      | q # r \<Rightarrow>
          if q \<noteq> 34 then None
          else
            (case parse_chars r of
               None \<Rightarrow> None
             | Some (k, r1) \<Rightarrow>
                 (case skip_ws r1 of
                    [] \<Rightarrow> None
                  | col # r2 \<Rightarrow>
                      if col = 58 \<and> length r2 < length cs then
                        (case parse_value (skip_ws r2) of
                           None \<Rightarrow> None
                         | Some (v, r3) \<Rightarrow>
                             (case skip_ws r3 of
                                [] \<Rightarrow> None
                              | d # r4 \<Rightarrow>
                                  if d = 125 then Some ([(k, v)], r4)
                                  else if d = 44 \<and> length r4 < length cs then
                                    map_option (\<lambda>(ms, r5). ((k, v) # ms, r5)) (parse_members r4)
                                  else None))
                      else None)))"
  by pat_completeness auto
termination
proof (relation "measure (\<lambda>x. case x of Inl cs \<Rightarrow> 2 * length cs
                                 | Inr (Inl cs) \<Rightarrow> 2 * length cs + 1
                                 | Inr (Inr cs) \<Rightarrow> 2 * length cs + 1)", goal_cases)
  case 1
  show ?case by simp
next
  case (2 cs c r d r')
  with length_dropWhile_le [of is_ws r] show ?case by (simp add: skip_ws_def)
next
  case (3 cs c r d r')
  with length_dropWhile_le [of is_ws r] show ?case by (simp add: skip_ws_def)
next
  case (4 cs)
  with length_dropWhile_le [of is_ws cs] show ?case by (simp add: skip_ws_def)
next
  case (5 cs v r d r')
  then show ?case by simp
next
  case (6 cs q r kr k r1 col r2)
  with length_dropWhile_le [of is_ws r2] show ?case by (simp add: skip_ws_def)
next
  case (7 cs q r kr k r1 col r2 vr v r3 d r4)
  then show ?case by simp
qed

declare parse_value.simps [simp del] parse_elements.simps [simp del] parse_members.simps [simp del]

text \<open>\<open>JSON.parse(text)\<close>: the value, or the \<open>SyntaxError\<close> it throws.\<close>

definition JSON_parse :: "jsstring \<Rightarrow> exn + js" where
  "JSON_parse text =
     (case parse_value (skip_ws text) of
        None \<Rightarrow> Inl SyntaxError
      | Some (v, r) \<Rightarrow> if skip_ws r = [] then Inr v else Inl SyntaxError)"

subsection \<open>String and number helpers\<close>

text \<open>
  \<open>toLowerCase\<close> on the letters A to Z; the model leaves every other code unit as
  it is, where the engine also folds the letters beyond ASCII.
\<close>

definition toLowerCase :: "jsstring \<Rightarrow> jsstring" where
  "toLowerCase s = map (\<lambda>c. if 65 \<le> c \<and> c \<le> 90 then c + 32 else c) s"

text \<open>\<open>s.includes(t)\<close>: \<open>t\<close> occurs in \<open>s\<close> as a contiguous run.\<close>

fun js_includes :: "jsstring \<Rightarrow> jsstring \<Rightarrow> bool" where
  "js_includes [] t = (t = [])"
| "js_includes (c # s) t = (take (length t) (c # s) = t \<or> js_includes s t)"

text \<open>Decimal digits of a number that is an integer (exact below \<open>2^53\<close>).\<close>

fun nat_digits :: "nat \<Rightarrow> jsstring" where
  "nat_digits n = (if n < 10 then [48 + n] else nat_digits (n div 10) @ [48 + n mod 10])"

definition int_toString :: "int \<Rightarrow> jsstring" where
  "int_toString i = (if i < 0 then 45 # nat_digits (nat (- i)) else nat_digits (nat i))"

text \<open>\<open>s.padStart(n, c)\<close> for a one-character filler.\<close>

definition padStart :: "nat \<Rightarrow> nat \<Rightarrow> jsstring \<Rightarrow> jsstring" where
  "padStart n c s = replicate (n - length s) c @ s"

text \<open>
  \<open>parseInt(s, 10)\<close>: leading white space, a sign, then the longest run of digits;
  \<open>None\<close> is \<open>NaN\<close>.
\<close>

definition is_StrWhiteSpaceChar :: "nat \<Rightarrow> bool" where
  "is_StrWhiteSpaceChar c =
     ((9 \<le> c \<and> c \<le> 13) \<or> c = 32 \<or> c = 160 \<or> c = 5760 \<or> (8192 \<le> c \<and> c \<le> 8202)
      \<or> c = 8232 \<or> c = 8233 \<or> c = 8239 \<or> c = 8287 \<or> c = 12288 \<or> c = 65279)"

definition parseInt :: "jsstring \<Rightarrow> int option" where
  "parseInt s =
     (let t = dropWhile is_StrWhiteSpaceChar s;
          neg = (case t of [] \<Rightarrow> False | c # _ \<Rightarrow> c = 45);
          signed = (case t of [] \<Rightarrow> False | c # _ \<Rightarrow> c = 45 \<or> c = 43);
          ds = takeWhile is_digit (if signed then tl t else t)
      in if ds = [] then None
         else Some (if neg then - int (digits_value ds) else int (digits_value ds)))"

section \<open>script.js: the permission table and the handlers of the first client\<close>

record perms =
  canView :: bool
  canAdd :: bool
  canEdit :: bool
  canDelete :: bool

text \<open>The object literal \<open>permissions\<close>, key by key.\<close>

definition permissions :: "(jsstring \<times> perms) list" where
  "permissions =
     [(lit ''administrator'', \<lparr>canView = True, canAdd = True, canEdit = True, canDelete = True\<rparr>),
      (lit ''doctor'', \<lparr>canView = True, canAdd = True, canEdit = False, canDelete = False\<rparr>),
      (lit ''viewer'', \<lparr>canView = True, canAdd = False, canEdit = False, canDelete = False\<rparr>)]"

text \<open>
  \<open>permissions[key]\<close>: an entry of the table, a value inherited from
  \<open>Object.prototype\<close>, or \<open>undefined\<close>.
\<close>

datatype property = Own perms | Inherited | Undefined

definition permissions_get :: "jsstring \<Rightarrow> property" where
  "permissions_get k =
     (case map_of permissions k of
        Some p \<Rightarrow> Own p
      | None \<Rightarrow> if k \<in> set Object_prototype then Inherited else Undefined)"

text \<open>
  The role is a string or \<open>null\<close>; as a property key and inside a template
  literal \<open>null\<close> reads \<open>"null"\<close>.
\<close>

definition role_key :: "jsstring option \<Rightarrow> jsstring" where
  "role_key userRole = (case userRole of None \<Rightarrow> lit ''null'' | Some r \<Rightarrow> r)"

text \<open>
  \<open>permissions[userRole] || permissions.viewer\<close>. The callers read the four flags
  in boolean position only, so the result is given as the truth of each flag: an
  inherited value is truthy and has none of the four properties.
\<close>

definition getCurrentPermissions :: "jsstring option \<Rightarrow> perms" where
  "getCurrentPermissions userRole =
     (case permissions_get (role_key userRole) of
        Own p \<Rightarrow> p
      | Inherited \<Rightarrow> \<lparr>canView = False, canAdd = False, canEdit = False, canDelete = False\<rparr>
      | Undefined \<Rightarrow> the (map_of permissions (lit ''viewer'')))"

subsection \<open>Requests, responses and what a handler does\<close>

text \<open>
  A call of \<open>fetch\<close>. The body is the value handed to \<open>JSON.stringify\<close>, kept as
  the value.
\<close>

record request =
  req_method :: jsstring
  req_url :: jsstring
  req_headers :: "(jsstring \<times> jsstring) list"
  req_body :: "js option"

text \<open>
  What \<open>fetch\<close> gives script.js: the promise rejects, or it resolves to a response
  with its \<open>ok\<close> flag, its status text and the result of \<open>response.json()\<close>
  (\<open>None\<close> when the body is not JSON and \<open>json()\<close> rejects).
\<close>

datatype 'a fetch_result = Rejected | Resolved bool jsstring "'a option"

record hms_patient =
  hms_id :: jsstring
  hms_name :: jsstring
  dob :: jsstring
  hms_gender :: jsstring
  address :: jsstring
  ward :: jsstring
  admissionDate :: jsstring
  doctor :: jsstring

text \<open>
  The table body: one message row, or one row per patient with its View/Edit and
  Discharge buttons.
\<close>

datatype table = Message jsstring | Rows "(hms_patient \<times> bool \<times> bool) list"

datatype effect = Alert jsstring | Fetch request | SetTable table | ResetForm
  | ClickViewTab | ConsoleError

record patientForm =
  patientId :: jsstring
  patientName :: jsstring
  patientDOB :: jsstring
  patientGender :: jsstring
  patientAddress :: jsstring
  patientWard :: jsstring
  admissionDate_input :: jsstring
  referringDoctor :: jsstring

definition API_BASE :: jsstring where
  "API_BASE = lit ''/api/patients''"

definition json_header :: "(jsstring \<times> jsstring) list" where
  "json_header = [(lit ''Content-Type'', lit ''application/json'')]"

definition role_json :: "jsstring option \<Rightarrow> js" where
  "role_json userRole = (case userRole of None \<Rightarrow> JNull | Some r \<Rightarrow> JString r)"

text \<open>
  \<open>fetchAndRenderPatients(searchQuery)\<close>, as the effects up to its \<open>await\<close> and the
  effects after the response has arrived.
\<close>

definition render_rows :: "perms \<Rightarrow> jsstring \<Rightarrow> hms_patient list \<Rightarrow> table" where
  "render_rows userPerms searchQuery patients =
     (let filteredPatients =
            filter (\<lambda>p. js_includes (toLowerCase (hms_name p)) (toLowerCase searchQuery)
                       \<or> js_includes (toLowerCase (hms_id p)) (toLowerCase searchQuery)) patients
      in if filteredPatients = [] then Message (lit ''No records found.'')
         else Rows (map (\<lambda>p. (p, canEdit userPerms, canDelete userPerms)) filteredPatients))"

definition fetchAndRenderPatients ::
  "jsstring option \<Rightarrow> jsstring \<Rightarrow> hms_patient list fetch_result \<Rightarrow> effect list \<times> effect list"
where
  "fetchAndRenderPatients userRole searchQuery response =
     (let userPerms = getCurrentPermissions userRole;
          failed = [ConsoleError, SetTable (Message (lit ''Error connecting to the API or database.''))]
      in if \<not> canView userPerms
         then ([SetTable (Message (lit ''Loading patient data...'')),
                SetTable (Message (lit ''Permission Denied: Cannot view records.''))], [])
         else
           ([SetTable (Message (lit ''Loading patient data...'')),
             Fetch \<lparr>req_method = lit ''GET'',
                    req_url = API_BASE @ lit ''?role='' @ role_key userRole,
                    req_headers = [], req_body = None\<rparr>],
            (case response of
               Rejected \<Rightarrow> failed
             | Resolved ok statusText body \<Rightarrow>
                 if \<not> ok then failed
                 else (case body of
                         None \<Rightarrow> failed
                       | Some patients \<Rightarrow> [SetTable (render_rows userPerms searchQuery patients)]))))"

text \<open>
  \<open>handleFormSubmission\<close>: the permission check, then one request, then the alert
  and the refresh. The body of a mutation response is its \<open>message\<close> member.
\<close>

definition handleFormSubmission ::
  "jsstring option \<Rightarrow> patientForm \<Rightarrow> jsstring option fetch_result
     \<Rightarrow> hms_patient list fetch_result \<Rightarrow> effect list"
where
  "handleFormSubmission userRole form response listResponse =
     (let isUpdate = (patientId form \<noteq> []);
          userPerms = getCurrentPermissions userRole;
          unexpected = [ConsoleError, Alert (lit ''An unexpected error occurred during submission.'')]
      in if isUpdate \<and> \<not> canEdit userPerms
         then [Alert (lit ''Permission Denied: You cannot update records.'')]
         else if \<not> isUpdate \<and> \<not> canAdd userPerms
         then [Alert (lit ''Permission Denied: You cannot add new records.'')]
         else
           Fetch \<lparr>req_method = (if isUpdate then lit ''PUT'' else lit ''POST''),
                  req_url = (if isUpdate then API_BASE @ lit ''/'' @ patientId form else API_BASE),
                  req_headers = json_header,
                  req_body = Some (JObject
                    [(lit ''role'', role_json userRole),
                     (lit ''name'', JString (patientName form)),
                     (lit ''dob'', JString (patientDOB form)),
                     (lit ''gender'', JString (patientGender form)),
                     (lit ''address'', JString (patientAddress form)),
                     (lit ''ward'', JString (patientWard form)),
                     (lit ''admissionDate'', JString (admissionDate_input form)),
                     (lit ''doctor'', JString (referringDoctor form))])\<rparr>
           # (case response of
                Rejected \<Rightarrow> unexpected
              | Resolved ok statusText body \<Rightarrow>
                  (case body of
                     None \<Rightarrow> unexpected
                   | Some message \<Rightarrow>
                       if \<not> ok
                       then [Alert (lit ''Operation Failed: ''
                                     @ (if truthy_string message then the message else statusText))]
                       else
                         (let (before, after) = fetchAndRenderPatients userRole [] listResponse
                          in [Alert (case message of None \<Rightarrow> lit ''undefined'' | Some m \<Rightarrow> m)]
                             @ before @ [ResetForm, ClickViewTab] @ after))))"

text \<open>\<open>deletePatient\<close>: the permission check, the confirmation, then one request.\<close>

definition deletePatient ::
  "jsstring option \<Rightarrow> jsstring \<Rightarrow> bool \<Rightarrow> jsstring option fetch_result
     \<Rightarrow> hms_patient list fetch_result \<Rightarrow> effect list"
where
  "deletePatient userRole patient_id confirmed response listResponse =
     (let userPerms = getCurrentPermissions userRole;
          unexpected = [ConsoleError, Alert (lit ''An unexpected error occurred during deletion.'')]
      in if \<not> canDelete userPerms
         then [Alert (lit ''Permission Denied: You cannot discharge/delete records.'')]
         else if \<not> confirmed then []
         else
           Fetch \<lparr>req_method = lit ''DELETE'',
                  req_url = API_BASE @ lit ''/'' @ patient_id,
                  req_headers = json_header,
                  req_body = Some (JObject [(lit ''role'', role_json userRole)])\<rparr>
           # (case response of
                Rejected \<Rightarrow> unexpected
              | Resolved ok statusText body \<Rightarrow>
                  (case body of
                     None \<Rightarrow> unexpected
                   | Some message \<Rightarrow>
                       if \<not> ok
                       then [Alert (lit ''Deletion Failed: ''
                                     @ (if truthy_string message then the message else statusText))]
                       else
                         (let (before, after) = fetchAndRenderPatients userRole [] listResponse
                          in [Alert (case message of None \<Rightarrow> lit ''undefined'' | Some m \<Rightarrow> m)]
                             @ before @ after))))"

text \<open>The requests a handler has sent.\<close>

definition requests_of :: "effect list \<Rightarrow> request list" where
  "requests_of es = concat (map (\<lambda>e. case e of Fetch r \<Rightarrow> [r] | _ \<Rightarrow> []) es)"

text \<open>The keys of the object a request carries as its body.\<close>

definition body_keys :: "request \<Rightarrow> jsstring list" where
  "body_keys r = (case req_body r of Some (JObject ms) \<Rightarrow> map fst ms | _ \<Rightarrow> [])"

section \<open>The localStorage prototype of the same client\<close>

text \<open>
  The earlier client keeps the records in \<open>localStorage\<close> and has no server. Its
  table \<open>permissions\<close> and its \<open>getCurrentPermissions\<close> are the ones above, read
  from \<open>sessionStorage\<close>.
\<close>

definition generatePatientId :: "hms_patient list \<Rightarrow> jsstring" where
  "generatePatientId patients =
     (if patients = [] then lit ''P00001''
      else
        (let lastId = hms_id (last patients);
             lastNumber = parseInt (remove1 80 lastId);
             newNumber = map_option (\<lambda>n. n + 1) lastNumber
         in 80 # padStart 5 48
              (case newNumber of None \<Rightarrow> lit ''NaN'' | Some n \<Rightarrow> int_toString n)))"

definition initialPatients :: "hms_patient list" where
  "initialPatients =
     [\<lparr>hms_id = lit ''P00123'', hms_name = lit ''Jane Doe'', dob = lit ''1985-04-21'',
       hms_gender = lit ''female'', address = lit ''10 Downing St'', ward = lit ''General'',
       admissionDate = lit ''2025-11-20'', doctor = lit ''Dr. Lee''\<rparr>,
      \<lparr>hms_id = lit ''P00456'', hms_name = lit ''John Smith'', dob = lit ''1992-07-15'',
       hms_gender = lit ''male'', address = lit ''42 Wallaby Way'', ward = lit ''ICU'',
       admissionDate = lit ''2025-12-01'', doctor = lit ''Dr. Chen''\<rparr>]"

text \<open>
  \<open>loadPatients\<close>: the stored list, or the sample data when the entry is absent. The
  entry is kept as the list it is the JSON text of.
\<close>

definition loadPatients :: "hms_patient list option \<Rightarrow> hms_patient list" where
  "loadPatients stored = (case stored of None \<Rightarrow> initialPatients | Some ps \<Rightarrow> ps)"

definition renderPatientTable :: "perms \<Rightarrow> jsstring \<Rightarrow> hms_patient list \<Rightarrow> table" where
  "renderPatientTable userPerms searchQuery patients =
     Rows (map (\<lambda>p. (p, canEdit userPerms, canDelete userPerms))
       (filter (\<lambda>p. js_includes (toLowerCase (hms_name p)) (toLowerCase searchQuery)
                  \<or> js_includes (toLowerCase (hms_id p)) (toLowerCase searchQuery)) patients))"

text \<open>
  \<open>handleFormSubmission\<close> of the prototype: the effects, and the stored list after
  the call.
\<close>

definition handleFormSubmission_local ::
  "jsstring option \<Rightarrow> patientForm \<Rightarrow> hms_patient list option
     \<Rightarrow> effect list \<times> hms_patient list option"
where
  "handleFormSubmission_local role form stored =
     (let userPerms = getCurrentPermissions role;
          isUpdate = (patientId form \<noteq> [])
      in if isUpdate \<and> \<not> canEdit userPerms
         then ([Alert (lit ''Permission Denied: You cannot update records.'')], stored)
         else if \<not> isUpdate \<and> \<not> canAdd userPerms
         then ([Alert (lit ''Permission Denied: You cannot add new records.'')], stored)
         else
           (let patients = loadPatients stored;
                newRecord =
                  \<lparr>hms_id = (if isUpdate then patientId form else generatePatientId patients),
                   hms_name = patientName form, dob = patientDOB form,
                   hms_gender = patientGender form, address = patientAddress form,
                   ward = patientWard form, admissionDate = admissionDate_input form,
                   doctor = referringDoctor form\<rparr>;
                patients' =
                  (if isUpdate
                   then map (\<lambda>p. if hms_id p = hms_id newRecord then newRecord else p) patients
                   else patients @ [newRecord])
            in ([Alert (if isUpdate
                        then lit ''Patient '' @ hms_id newRecord @ lit '' updated successfully!''
                        else lit ''New patient '' @ hms_id newRecord @ lit '' added successfully!''),
                 SetTable (renderPatientTable userPerms [] patients'),
                 ResetForm, ClickViewTab],
                Some patients')))"

section \<open>services/api.ts\<close>

text \<open>
  What \<open>fetch\<close> gives the API module: the promise rejects; or the response is not
  \<open>ok\<close>, with the \<open>error\<close> member of its body when that is a non-empty string;
  or the response is \<open>ok\<close>, with the value of \<open>res.json()\<close> (\<open>None\<close> when the
  body is not JSON and \<open>json()\<close> rejects).
\<close>

datatype 'a api_response = FetchFailed | NotOk "jsstring option" | Ok "'a option"

record User =
  user_id :: real
  username :: jsstring
  email :: jsstring
  role :: jsstring


text \<open>The object \<open>res.json()\<close> builds for a \<open>User\<close>.\<close>

definition User_json :: "User \<Rightarrow> js" where
  "User_json u =
     JObject [(lit ''id'', JNumber (user_id u)), (lit ''username'', JString (username u)),
              (lit ''email'', JString (email u)), (lit ''role'', JString (role u))]"

record Patient =
  patient_id :: "int option"
  name :: jsstring
  age :: real
  gender :: jsstring
  hypertension :: js
  heart_disease :: js
  ever_married :: jsstring
  work_type :: jsstring
  residence_type :: jsstring
  avg_glucose_level :: real
  bmi :: real
  smoking_status :: jsstring
  stroke_prediction :: "real option"
  stroke :: "real option"


definition PATIENT_API_URL :: jsstring where
  "PATIENT_API_URL = lit ''http://localhost:5000/api''"

text \<open>
  The part the four patient calls and the two account calls share: a rejected
  \<open>fetch\<close> throws, a response that is not \<open>ok\<close> throws \<open>Error\<close> with the
  server's message or the call's own, and an \<open>ok\<close> response gives its body.
\<close>

definition settle :: "jsstring \<Rightarrow> 'a api_response \<Rightarrow> exn + 'a" where
  "settle fallback response =
     (case response of
        FetchFailed \<Rightarrow> Inl TypeError
      | NotOk err \<Rightarrow> Inl (Error (if truthy_string err then the err else fallback))
      | Ok None \<Rightarrow> Inl SyntaxError
      | Ok (Some data) \<Rightarrow> Inr data)"



definition api_fetchPatients ::
  "jsstring \<Rightarrow> Patient list api_response \<Rightarrow> request list \<times> (exn + Patient list)"
where
  "api_fetchPatients tok response =
     (if tok = [] then ([], Inl (Error (lit ''No token provided'')))
      else
        ([\<lparr>req_method = lit ''GET'', req_url = PATIENT_API_URL @ lit ''/patients/'',
           req_headers = [(lit ''Authorization'', lit ''Bearer '' @ tok)],
           req_body = None\<rparr>],
         settle (lit ''Failed to fetch patients'') response))"

definition addPatient ::
  "(jsstring \<times> js) list \<Rightarrow> jsstring \<Rightarrow> Patient api_response \<Rightarrow> request \<times> (exn + Patient)"
where
  "addPatient patientData tok response =
     (\<lparr>req_method = lit ''POST'', req_url = PATIENT_API_URL @ lit ''/patients/'',
       req_headers = json_header @ [(lit ''Authorization'', lit ''Bearer '' @ tok)],
       req_body = Some (JObject patientData)\<rparr>,
      settle (lit ''Failed to add patient'') response)"

text \<open>A record identifier inside a template literal.\<close>

definition id_text :: "int option \<Rightarrow> jsstring" where
  "id_text i = (case i of None \<Rightarrow> lit ''undefined'' | Some n \<Rightarrow> int_toString n)"

definition updatePatient ::
  "int \<Rightarrow> (jsstring \<times> js) list \<Rightarrow> jsstring \<Rightarrow> Patient api_response
     \<Rightarrow> request \<times> (exn + Patient)"
where
  "updatePatient i updates tok response =
     (\<lparr>req_method = lit ''PUT'', req_url = PATIENT_API_URL @ lit ''/patients/'' @ int_toString i,
       req_headers = json_header @ [(lit ''Authorization'', lit ''Bearer '' @ tok)],
       req_body = Some (JObject updates)\<rparr>,
      settle (lit ''Failed to update patient'') response)"

text \<open>\<open>deletePatient\<close> reads no body of an \<open>ok\<close> response: it returns \<open>true\<close>.\<close>

definition api_deletePatient ::
  "int option \<Rightarrow> jsstring \<Rightarrow> unit api_response \<Rightarrow> request \<times> (exn + bool)"
where
  "api_deletePatient i tok response =
     (\<lparr>req_method = lit ''DELETE'', req_url = PATIENT_API_URL @ lit ''/patients/'' @ id_text i,
       req_headers = [(lit ''Authorization'', lit ''Bearer '' @ tok)],
       req_body = None\<rparr>,
      (case response of
         FetchFailed \<Rightarrow> Inl TypeError
       | NotOk err \<Rightarrow>
           Inl (Error (if truthy_string err then the err else lit ''Failed to delete patient''))
       | Ok body \<Rightarrow> Inr True))"

section \<open>context/AuthContext.tsx: the session\<close>

text \<open>
  An entry of \<open>localStorage\<close>: a text, or \<open>JSON.stringify(v)\<close> kept as the value
  \<open>v\<close> it is the text of (a non-empty text that \<open>JSON.parse\<close> reads back as
  \<open>v\<close>).
\<close>

datatype item = Text jsstring | Stringified js

record storage =
  token_item :: "jsstring option"
  user_item :: "item option"

text \<open>
  The state of \<open>AuthProvider\<close>, with the storage it writes. \<open>user\<close> is \<open>JNull\<close>
  for \<open>null\<close> and \<open>token\<close> is \<open>None\<close> for \<open>null\<close>.
\<close>

record auth =
  user :: js
  token :: "jsstring option"
  isLoading :: bool
  localStorage :: storage

text \<open>
  The two lazy initial states, run when the provider mounts. A throwing
  \<open>JSON.parse\<close> makes the mount itself throw.
\<close>

definition AuthProvider_init :: "storage \<Rightarrow> exn + auth" where
  "AuthProvider_init st =
     (case (case user_item st of
              None \<Rightarrow> Inr JNull
            | Some (Text stored) \<Rightarrow> if stored = [] then Inr JNull else JSON_parse stored
            | Some (Stringified v) \<Rightarrow> Inr v) of
        Inl e \<Rightarrow> Inl e
      | Inr u \<Rightarrow> Inr \<lparr>user = u, token = token_item st, isLoading = False, localStorage = st\<rparr>)"

text \<open>The value the provider hands to its consumers.\<close>

record AuthContextType =
  ctx_user :: js
  ctx_token :: "jsstring option"
  isAuthenticated :: bool
  ctx_isLoading :: bool

definition AuthProvider_value :: "auth \<Rightarrow> AuthContextType" where
  "AuthProvider_value a =
     \<lparr>ctx_user = user a, ctx_token = token a,
      isAuthenticated = (truthy_string (token a) \<and> truthy (user a)),
      ctx_isLoading = isLoading a\<rparr>"





section \<open>components/PatientModal.tsx: the draft\<close>

text \<open>
  The draft is an object built from a literal, a rest pattern and computed keys, so
  it is kept as its list of properties.
\<close>

definition INITIAL_FORM :: "(jsstring \<times> js) list" where
  "INITIAL_FORM =
     [(lit ''name'', JString []), (lit ''gender'', JString (lit ''Male'')),
      (lit ''age'', JNumber 50), (lit ''hypertension'', JNumber 0),
      (lit ''heart_disease'', JNumber 0), (lit ''ever_married'', JString (lit ''Yes'')),
      (lit ''work_type'', JString (lit ''Private'')),
      (lit ''residence_type'', JString (lit ''Urban'')),
      (lit ''avg_glucose_level'', JNumber 100), (lit ''bmi'', JNumber 25),
      (lit ''smoking_status'', JString (lit ''never smoked'')), (lit ''stroke'', JNumber 0)]"

text \<open>The keys of the initial form.\<close>

definition form_keys :: "jsstring list" where
  "form_keys = map fst INITIAL_FORM"

text \<open>The properties of a cached record, as \<open>res.json()\<close> built them.\<close>

definition Patient_props :: "Patient \<Rightarrow> (jsstring \<times> js) list" where
  "Patient_props p =
     (case patient_id p of None \<Rightarrow> [] | Some i \<Rightarrow> [(lit ''id'', JNumber (of_int i))])
     @ [(lit ''name'', JString (name p)), (lit ''age'', JNumber (age p)),
        (lit ''gender'', JString (gender p)), (lit ''hypertension'', hypertension p),
        (lit ''heart_disease'', heart_disease p),
        (lit ''ever_married'', JString (ever_married p)),
        (lit ''work_type'', JString (work_type p)),
        (lit ''residence_type'', JString (residence_type p)),
        (lit ''avg_glucose_level'', JNumber (avg_glucose_level p)),
        (lit ''bmi'', JNumber (bmi p)), (lit ''smoking_status'', JString (smoking_status p))]
     @ (case stroke_prediction p of None \<Rightarrow> [] | Some x \<Rightarrow> [(lit ''stroke_prediction'', JNumber x)])
     @ (case stroke p of None \<Rightarrow> [] | Some x \<Rightarrow> [(lit ''stroke'', JNumber x)])"

text \<open>\<open>{ ...prev, [field]: value }\<close>: an existing key keeps its place.\<close>

fun set_member :: "(jsstring \<times> js) list \<Rightarrow> jsstring \<Rightarrow> js \<Rightarrow> (jsstring \<times> js) list" where
  "set_member [] k v = [(k, v)]"
| "set_member ((k', w) # ms) k v =
     (if k' = k then (k, v) # ms else (k', w) # set_member ms k v)"

record modal =
  formData :: "(jsstring \<times> js) list"
  loading :: bool
  error_m :: jsstring

text \<open>
  The effect on \<open>[initialData, isOpen]\<close>: \<open>const { id, ...rest } = initialData\<close>
  or the initial form.
\<close>

definition modal_effect :: "Patient option \<Rightarrow> modal \<Rightarrow> modal" where
  "modal_effect initialData m =
     m\<lparr>formData := (case initialData of
                       Some p \<Rightarrow> filter (\<lambda>(k, v). k \<noteq> lit ''id'') (Patient_props p)
                     | None \<Rightarrow> INITIAL_FORM),
       error_m := []\<rparr>"

definition handleChange :: "jsstring \<Rightarrow> js \<Rightarrow> modal \<Rightarrow> modal" where
  "handleChange field v m = m\<lparr>formData := set_member (formData m) field v\<rparr>"

text \<open>The twelve inputs of the form, each with the value its \<open>onChange\<close> passes on.\<close>

datatype change = Name jsstring | Age real | Gender jsstring | WorkType jsstring
  | ResidenceType jsstring | EverMarried jsstring | Bmi real | AvgGlucoseLevel real
  | SmokingStatus jsstring | Hypertension bool | HeartDisease bool | Stroke bool

definition checked :: "bool \<Rightarrow> js" where
  "checked b = JNumber (if b then 1 else 0)"

fun onChange :: "change \<Rightarrow> modal \<Rightarrow> modal" where
  "onChange (Name v) = handleChange (lit ''name'') (JString v)"
| "onChange (Age x) = handleChange (lit ''age'') (JNumber x)"
| "onChange (Gender v) = handleChange (lit ''gender'') (JString v)"
| "onChange (WorkType v) = handleChange (lit ''work_type'') (JString v)"
| "onChange (ResidenceType v) = handleChange (lit ''residence_type'') (JString v)"
| "onChange (EverMarried v) = handleChange (lit ''ever_married'') (JString v)"
| "onChange (Bmi x) = handleChange (lit ''bmi'') (JNumber x)"
| "onChange (AvgGlucoseLevel x) = handleChange (lit ''avg_glucose_level'') (JNumber x)"
| "onChange (SmokingStatus v) = handleChange (lit ''smoking_status'') (JString v)"
| "onChange (Hypertension b) = handleChange (lit ''hypertension'') (checked b)"
| "onChange (HeartDisease b) = handleChange (lit ''heart_disease'') (checked b)"
| "onChange (Stroke b) = handleChange (lit ''stroke'') (checked b)"

section \<open>pages/Dashboard.tsx: the cache, its view and the mutations\<close>

record dashboard =
  patients :: "Patient list"
  isLoading_d :: bool
  searchTerm :: jsstring
  isModalOpen :: bool
  editingPatient :: "Patient option"
  error :: jsstring

text \<open>\<open>user?.role === 'doctor'\<close>\<close>

definition canModify :: "js \<Rightarrow> bool" where
  "canModify u = (js_get u (lit ''role'') = Some (JString (lit ''doctor'')))"

text \<open>
  \<open>fetchPatients\<close> of the page. The list an \<open>ok\<close> response carries is an array,
  which is truthy, so \<open>if (data)\<close> always stores it.
\<close>

definition fetchPatients ::
  "jsstring option \<Rightarrow> Patient list api_response \<Rightarrow> dashboard \<Rightarrow> request list \<times> dashboard"
where
  "fetchPatients tok response d =
     (if \<not> truthy_string tok
      then ([], d\<lparr>error := lit ''No authentication token found'', isLoading_d := False\<rparr>)
      else
        (let (reqs, result) = api_fetchPatients (the tok) response
         in (reqs,
             (case result of
                Inr data \<Rightarrow> d\<lparr>patients := data, error := [], isLoading_d := False\<rparr>
              | Inl e \<Rightarrow>
                  d\<lparr>error := lit ''Could not connect to the server. Is the Flask backend running?'',
                    isLoading_d := False\<rparr>))))"

definition handleEdit :: "Patient \<Rightarrow> dashboard \<Rightarrow> dashboard" where
  "handleEdit patient d = d\<lparr>editingPatient := Some patient, isModalOpen := True\<rparr>"

definition handleAdd :: "dashboard \<Rightarrow> dashboard" where
  "handleAdd d = d\<lparr>editingPatient := None, isModalOpen := True\<rparr>"

text \<open>
  \<open>handleModalSubmit\<close>: the requests sent, the exception handed back to the modal
  if the call failed, and the state after it.
\<close>

definition handleModalSubmit ::
  "jsstring option \<Rightarrow> (jsstring \<times> js) list \<Rightarrow> Patient api_response \<Rightarrow> Patient list api_response
     \<Rightarrow> dashboard \<Rightarrow> request list \<times> exn option \<times> dashboard"
where
  "handleModalSubmit tok data response listResponse d =
     (if \<not> truthy_string tok then ([], None, d)
      else
        (let (req, result) =
               (case editingPatient d of
                  None \<Rightarrow> addPatient data (the tok) response
                | Some p \<Rightarrow>
                    (case patient_id p of
                       None \<Rightarrow> addPatient data (the tok) response
                     | Some i \<Rightarrow> updatePatient i data (the tok) response))
         in (case result of
               Inl e \<Rightarrow> ([req], Some e, d)
             | Inr saved \<Rightarrow>
                 (let (reqs, d') = fetchPatients tok listResponse d
                  in (req # reqs, None, d')))))"

text \<open>
  \<open>handleDelete\<close>: the requests sent, the alerts shown and the state after it. The
  third argument is the answer to \<open>window.confirm\<close>.
\<close>

definition handleDelete ::
  "jsstring option \<Rightarrow> int option \<Rightarrow> bool \<Rightarrow> unit api_response \<Rightarrow> Patient list api_response
     \<Rightarrow> dashboard \<Rightarrow> request list \<times> jsstring list \<times> dashboard"
where
  "handleDelete tok i confirmed response listResponse d =
     (if \<not> truthy_string tok then ([], [], d)
      else if \<not> confirmed then ([], [], d)
      else
        (let (req, result) = api_deletePatient i (the tok) response
         in (case result of
               Inl e \<Rightarrow> ([req], [lit ''Failed to delete patient''], d)
             | Inr done \<Rightarrow>
                 (let (reqs, d') = fetchPatients tok listResponse d
                  in (req # reqs, [], d')))))"

text \<open>
  The text filter. \<open>name\<close> and \<open>gender\<close> are required members of a record, so the
  optional chaining on them never short-cuts; \<open>id\<close> may be absent.
\<close>

definition filteredPatients :: "Patient list \<Rightarrow> jsstring \<Rightarrow> Patient list" where
  "filteredPatients ps term =
     filter (\<lambda>p. js_includes (toLowerCase (name p)) (toLowerCase term)
                \<or> js_includes (toLowerCase (gender p)) (toLowerCase term)
                \<or> (case patient_id p of
                      None \<Rightarrow> False
                    | Some i \<Rightarrow> js_includes (int_toString i) term)) ps"

text \<open>The statistics. \<open>!p.stroke_prediction\<close> holds for a missing value and for 0.\<close>

definition strokeStats :: "Patient list \<Rightarrow> (jsstring \<times> nat) list" where
  "strokeStats ps =
     [(lit ''Stroke'',
       length (filter (\<lambda>p. stroke p = Some 1 \<or> stroke_prediction p = Some 1) ps)),
      (lit ''No Stroke'',
       length (filter (\<lambda>p. stroke p = Some 0 \<or> stroke_prediction p = Some 0
                            \<or> stroke_prediction p = None) ps))]"

definition genderStats :: "Patient list \<Rightarrow> (jsstring \<times> nat) list" where
  "genderStats ps =
     [(lit ''Male'', length (filter (\<lambda>p. gender p = lit ''Male'') ps)),
      (lit ''Female'', length (filter (\<lambda>p. gender p = lit ''Female'') ps))]"

text \<open>
  The four cards of the header. A quotient is a number, an infinity or \<open>NaN\<close>;
  sums and quotients are exact here, where the engine rounds them to doubles, and the
  cards print the two means with one decimal.
\<close>

datatype jsnumber = Finite real | PlusInfinity | MinusInfinity | NaN

definition js_divide :: "real \<Rightarrow> real \<Rightarrow> jsnumber" where
  "js_divide a b =
     (if b \<noteq> 0 then Finite (a / b)
      else if a = 0 then NaN else if 0 < a then PlusInfinity else MinusInfinity)"

definition length_or_1 :: "Patient list \<Rightarrow> real" where
  "length_or_1 ps = (if length ps = 0 then 1 else real (length ps))"

definition totalPatients :: "Patient list \<Rightarrow> nat" where
  "totalPatients ps = length ps"

definition avgGlucoseLevel :: "Patient list \<Rightarrow> jsnumber" where
  "avgGlucoseLevel ps =
     js_divide (foldl (\<lambda>acc p. acc + avg_glucose_level p) 0 ps) (length_or_1 ps)"

definition avgAge :: "Patient list \<Rightarrow> jsnumber" where
  "avgAge ps = js_divide (foldl (\<lambda>acc p. acc + age p) 0 ps) (length_or_1 ps)"

definition strokeRiskObserved :: "Patient list \<Rightarrow> nat" where
  "strokeRiskObserved ps = length (filter (\<lambda>p. stroke p = Some 1) ps)"

text \<open>
  The controls the page renders that start a mutation: the Add button and, on each
  row of the filtered list, the Edit and Delete buttons, all inside \<open>canModify &&\<close>;
  and the Save button of the modal, which is rendered whenever the modal is open.
\<close>

datatype control = AddPatientButton | EditButton Patient | DeleteButton Patient | SaveButton

definition controls :: "js \<Rightarrow> dashboard \<Rightarrow> control list" where
  "controls u d =
     (if canModify u then [AddPatientButton] else [])
     @ (if isLoading_d d then []
        else concat (map (\<lambda>p. if canModify u then [EditButton p, DeleteButton p] else [])
                       (filteredPatients (patients d) (searchTerm d))))
     @ (if isModalOpen d then [SaveButton] else [])"

text \<open>
  The create path from the Add button to the request: the page opens the modal with
  no record, the modal resets the draft, the inputs change it, and the submit hands
  it to \<open>handleModalSubmit\<close>.
\<close>

definition create_path ::
  "jsstring option \<Rightarrow> change list \<Rightarrow> Patient api_response \<Rightarrow> Patient list api_response
     \<Rightarrow> dashboard \<Rightarrow> modal \<Rightarrow> request list \<times> exn option \<times> dashboard"
where
  "create_path tok changes response listResponse d m =
     (let d1 = handleAdd d;
          m1 = modal_effect (editingPatient d1) m;
          m2 = foldl (\<lambda>m' c. onChange c m') m1 changes
      in handleModalSubmit tok (formData m2) response listResponse d1)"

text \<open>
  The gate of the page as a permission set: the list is shown to every signed-in
  user, and the three mutating controls follow \<open>canModify\<close>.
\<close>

definition Dashboard_gate :: "js \<Rightarrow> perms" where
  "Dashboard_gate u =
     \<lparr>canView = True, canAdd = canModify u, canEdit = canModify u, canDelete = canModify u\<rparr>"

subsection \<open>The page as the person in front of it can drive it\<close>

text \<open>
  The page with its modal, and the requests it has sent so far. It mounts with the
  initial values of its state hooks.
\<close>

record page =
  dash :: dashboard
  draft :: modal
  sent :: "request list"

definition Dashboard_mount :: page where
  "Dashboard_mount =
     \<lparr>dash = \<lparr>patients = [], isLoading_d = True, searchTerm = [], isModalOpen = False,
              editingPatient = None, error = []\<rparr>,
      draft = \<lparr>formData = INITIAL_FORM, loading = False, error_m = []\<rparr>,
      sent = []\<rparr>"

text \<open>
  What the person can do: type in the search box, press a rendered button, change
  an input of the open modal, submit it or close it. A press that sends a request
  comes with the answers the page will get.
\<close>

datatype event =
    Search jsstring
  | ClickAdd
  | ClickEdit Patient
  | ClickDelete Patient bool "unit api_response" "Patient list api_response"
  | Input change
  | Save "Patient api_response" "Patient list api_response"
  | Close

text \<open>
  An event can happen when its control is on the page: the search box always is,
  the inputs and the two closing buttons are part of the modal, which renders
  nothing unless it is open.
\<close>

fun enabled :: "js \<Rightarrow> page \<Rightarrow> event \<Rightarrow> bool" where
  "enabled u s (Search t) = True"
| "enabled u s ClickAdd = (AddPatientButton \<in> set (controls u (dash s)))"
| "enabled u s (ClickEdit p) = (EditButton p \<in> set (controls u (dash s)))"
| "enabled u s (ClickDelete p confirmed response listResponse)
     = (DeleteButton p \<in> set (controls u (dash s)))"
| "enabled u s (Input c) = isModalOpen (dash s)"
| "enabled u s (Save response listResponse) = (SaveButton \<in> set (controls u (dash s)))"
| "enabled u s Close = isModalOpen (dash s)"

text \<open>
  The effect of the modal on \<open>[initialData, isOpen]\<close> runs again after a render
  in which one of the two has changed.
\<close>

definition after_render :: "dashboard \<Rightarrow> dashboard \<Rightarrow> modal \<Rightarrow> modal" where
  "after_render d d' m =
     (if editingPatient d' = editingPatient d \<and> isModalOpen d' = isModalOpen d then m
      else modal_effect (editingPatient d') m)"

text \<open>
  \<open>handleSubmit\<close> of the modal: it hands the draft to \<open>handleModalSubmit\<close>, then
  closes the modal, or shows its error if the call threw.
\<close>

definition handleSubmit ::
  "jsstring option \<Rightarrow> Patient api_response \<Rightarrow> Patient list api_response \<Rightarrow> page \<Rightarrow> page"
where
  "handleSubmit tok response listResponse s =
     (let (reqs, thrown, d') =
            handleModalSubmit tok (formData (draft s)) response listResponse (dash s)
      in (case thrown of
            None \<Rightarrow>
              (let d'' = d'\<lparr>isModalOpen := False\<rparr>
               in \<lparr>dash = d'',
                   draft = after_render (dash s) d'' ((draft s)\<lparr>loading := False, error_m := []\<rparr>),
                   sent = sent s @ reqs\<rparr>)
          | Some e \<Rightarrow>
              \<lparr>dash = d',
               draft = (draft s)\<lparr>loading := False,
                                error_m := lit ''Failed to save patient. Please check inputs.''\<rparr>,
               sent = sent s @ reqs\<rparr>))"

fun step :: "jsstring option \<Rightarrow> event \<Rightarrow> page \<Rightarrow> page" where
  "step tok (Search t) s = s\<lparr>dash := (dash s)\<lparr>searchTerm := t\<rparr>\<rparr>"
| "step tok ClickAdd s =
     s\<lparr>dash := handleAdd (dash s),
       draft := after_render (dash s) (handleAdd (dash s)) (draft s)\<rparr>"
| "step tok (ClickEdit p) s =
     s\<lparr>dash := handleEdit p (dash s),
       draft := after_render (dash s) (handleEdit p (dash s)) (draft s)\<rparr>"
| "step tok (ClickDelete p confirmed response listResponse) s =
     (let (reqs, alerts, d') =
            handleDelete tok (patient_id p) confirmed response listResponse (dash s)
      in s\<lparr>dash := d', sent := sent s @ reqs\<rparr>)"
| "step tok (Input c) s = s\<lparr>draft := onChange c (draft s)\<rparr>"
| "step tok (Save response listResponse) s = handleSubmit tok response listResponse s"
| "step tok Close s =
     s\<lparr>dash := (dash s)\<lparr>isModalOpen := False\<rparr>,
       draft := after_render (dash s) ((dash s)\<lparr>isModalOpen := False\<rparr>) (draft s)\<rparr>"

text \<open>
  The states the page reaches for a signed-in user \<open>u\<close> holding the token
  \<open>tok\<close>: it mounts, the list call of the mount effect is answered, and the
  person does whatever the page offers, in any order.
\<close>

inductive page_reaches :: "js \<Rightarrow> jsstring option \<Rightarrow> page \<Rightarrow> bool" for u tok where
  mount: "page_reaches u tok Dashboard_mount"
| fetched: "page_reaches u tok s \<Longrightarrow>
            page_reaches u tok
              (s\<lparr>dash := snd (fetchPatients tok response (dash s)),
                 sent := sent s @ fst (fetchPatients tok response (dash s))\<rparr>)"
| event: "page_reaches u tok s \<Longrightarrow> enabled u s e \<Longrightarrow> page_reaches u tok (step tok e s)"

section \<open>The reference table of the specification\<close>

text \<open>
  The two roles and the table of the authorization policy as the specification
  writes it; \<open>canAdd\<close> is its column \<open>create\<close>.
\<close>

datatype Role = restrictedViewer | privilegedEditor

fun Role_name :: "Role \<Rightarrow> jsstring" where
  "Role_name restrictedViewer = lit ''user''"
| "Role_name privilegedEditor = lit ''doctor''"

fun AuthorizationPolicy :: "Role \<Rightarrow> perms" where
  "AuthorizationPolicy restrictedViewer =
     \<lparr>canView = True, canAdd = False, canEdit = False, canDelete = False\<rparr>"
| "AuthorizationPolicy privilegedEditor =
     \<lparr>canView = True, canAdd = True, canEdit = True, canDelete = True\<rparr>"

section \<open>Facts about the helpers\<close>

lemma lit_eq_iff: "lit a = lit b \<longleftrightarrow> a = b"
  unfolding lit_def by (simp add: inj_map_eq_map inj_on_def)

lemma js_includes_empty: "js_includes s [] = True"
  by (induction s) simp_all

lemma viewer_permissions:
  "getCurrentPermissions (Some (Role_name restrictedViewer))
     = \<lparr>canView = True, canAdd = False, canEdit = False, canDelete = False\<rparr>"
  by (simp add: getCurrentPermissions_def permissions_get_def role_key_def permissions_def
      Object_prototype_def lit_eq_iff)

lemma doctor_permissions:
  "getCurrentPermissions (Some (lit ''doctor''))
     = \<lparr>canView = True, canAdd = True, canEdit = False, canDelete = False\<rparr>"
  by (simp add: getCurrentPermissions_def permissions_get_def role_key_def permissions_def
      lit_eq_iff)

subsection \<open>The parser consumes its input\<close>

lemma length_skip_ws: "length (skip_ws cs) \<le> length cs"
  unfolding skip_ws_def by (rule length_dropWhile_le)

lemma parse_chars_shorter: "parse_chars cs = Some (s, r) \<Longrightarrow> length r < length cs"
proof (induction cs arbitrary: s r rule: parse_chars.induct)
  case 1
  then show ?case by simp
next
  case (2 c cs)
  then show ?case
    by (fastforce split: if_splits list.splits option.splits prod.splits)
qed

lemma parse_number_shorter:
  assumes "parse_number cs = Some (x, r)"
  shows "length r < length cs"
proof -
  define cs1 where "cs1 = (if (case cs of [] \<Rightarrow> False | c # _ \<Rightarrow> c = 45) then tl cs else cs)"
  define ip where "ip = (case cs1 of [] \<Rightarrow> [] | c # _ \<Rightarrow> if c = 48 then [48] else takeWhile is_digit cs1)"
  define cs2 where "cs2 = drop (length ip) cs1"
  have ne: "ip \<noteq> []"
    using assms unfolding parse_number_def Let_def ip_def cs1_def by (auto split: if_splits)
  have le1: "length cs1 \<le> length cs"
    by (simp add: cs1_def)
  have "length ip \<le> length cs1"
    by (auto simp: ip_def length_takeWhile_le split: list.splits)
  with ne have lt: "length cs2 < length cs1"
    by (cases ip) (simp_all add: cs2_def)
  have "length r \<le> length cs2"
    using assms ne unfolding parse_number_def Let_def ip_def [symmetric] cs1_def [symmetric]
      cs2_def [symmetric]
    by (auto split: if_splits intro: le_trans [OF diff_le_self] simp: le_diff_conv)
  with lt le1 show ?thesis by simp
qed


lemma skip_ws_Cons_shorter: "skip_ws r = d # r' \<Longrightarrow> length r' < length r"
  using length_skip_ws [of r] by simp

lemma parse_shorter:
  "(\<forall>v r. parse_value cs = Some (v, r) \<longrightarrow> length r < length cs)"
  "(\<forall>vs r. parse_elements cs1 = Some (vs, r) \<longrightarrow> length r < length cs1)"
  "(\<forall>ms r. parse_members cs2 = Some (ms, r) \<longrightarrow> length r < length cs2)"
proof (induction cs and cs1 and cs2 rule: parse_value_parse_elements_parse_members.induct)
  case (1 cs)
  show ?case
  proof (intro allI impI)
    fix v r
    assume a: "parse_value cs = Some (v, r)"
    show "length r < length cs"
    proof (cases cs)
      case Nil
      with a show ?thesis by (simp add: parse_value.simps)
    next
      case (Cons c t)
      consider (obj) "c = 123" | (arr) "c \<noteq> 123" "c = 91" | (str) "c \<noteq> 123" "c \<noteq> 91" "c = 34"
        | (other) "c \<noteq> 123" "c \<noteq> 91" "c \<noteq> 34"
        by blast
      then show ?thesis
      proof cases
        case obj
        show ?thesis
        proof (cases "skip_ws t")
          case Nil
          with a Cons obj show ?thesis by (simp add: parse_value.simps)
        next
          case (Cons d t')
          note sk = Cons
          show ?thesis
          proof (cases "d = 125")
            case True
            with a \<open>cs = c # t\<close> obj sk skip_ws_Cons_shorter [OF sk] show ?thesis
              by (auto simp: parse_value.simps)
          next
            case False
            with a \<open>cs = c # t\<close> obj sk obtain ms where
              m: "parse_members (d # t') = Some (ms, r)"
              by (auto simp: parse_value.simps)
            from "1.IH"(1) [OF \<open>cs = c # t\<close> obj sk False] m
            have "length r < length (d # t')" by blast
            with length_skip_ws [of t] sk \<open>cs = c # t\<close> show ?thesis by simp
          qed
        qed
      next
        case arr
        show ?thesis
        proof (cases "skip_ws t")
          case Nil
          with a Cons arr show ?thesis by (simp add: parse_value.simps)
        next
          case (Cons d t')
          note sk = Cons
          show ?thesis
          proof (cases "d = 93")
            case True
            with a \<open>cs = c # t\<close> arr sk skip_ws_Cons_shorter [OF sk] show ?thesis
              by (auto simp: parse_value.simps)
          next
            case False
            with a \<open>cs = c # t\<close> arr sk obtain vs where
              m: "parse_elements (d # t') = Some (vs, r)"
              by (auto simp: parse_value.simps)
            from "1.IH"(2) [OF \<open>cs = c # t\<close> arr(1) arr(2) sk False] m
            have "length r < length (d # t')" by blast
            with length_skip_ws [of t] sk \<open>cs = c # t\<close> show ?thesis by simp
          qed
        qed
      next
        case str
        with a Cons obtain s where "parse_chars t = Some (s, r)"
          by (auto simp: parse_value.simps)
        from parse_chars_shorter [OF this] Cons show ?thesis by simp
      next
        case other
        with a Cons show ?thesis
          by (auto simp: parse_value.simps split: if_splits dest: parse_number_shorter)
      qed
    qed
  qed
next
  case (2 cs)
  show ?case
  proof (intro allI impI)
    fix vs r
    assume a: "parse_elements cs = Some (vs, r)"
    then obtain v r1 where v: "parse_value (skip_ws cs) = Some (v, r1)"
      by (auto simp: parse_elements.simps [of cs] split: option.splits)
    from "2.IH"(1) v have l1: "length r1 < length (skip_ws cs)" by blast
    from a v obtain d r' where sk: "skip_ws r1 = d # r'"
      by (auto simp: parse_elements.simps [of cs] split: list.splits)
    have l2: "length r' < length cs"
      using skip_ws_Cons_shorter [OF sk] l1 length_skip_ws [of cs] by simp
    show "length r < length cs"
    proof (cases "d = 93")
      case True
      with a v sk l2 show ?thesis
        by (auto simp: parse_elements.simps [of cs])
    next
      case False
      with a v sk obtain d44: "d = 44" and g: "length r' < length cs"
        by (auto simp: parse_elements.simps [of cs] split: if_splits)
      with a v sk False obtain ws where m: "parse_elements r' = Some (ws, r)"
        by (auto simp: parse_elements.simps [of cs])
      from "2.IH"(2) [OF v refl sk False] d44 g m have "length r < length r'"
        by blast
      with l2 show ?thesis by simp
    qed
  qed
next
  case (3 cs)
  show ?case
  proof (intro allI impI)
    fix ms r
    assume a: "parse_members cs = Some (ms, r)"
    from a obtain q t where sk0: "skip_ws cs = q # t" and q: "q = 34"
      by (auto simp: parse_members.simps [of cs] split: list.splits if_splits)
    from a sk0 q obtain k r1 where pc: "parse_chars t = Some (k, r1)"
      by (auto simp: parse_members.simps [of cs] split: option.splits)
    from a sk0 q pc obtain col r2 where sk1: "skip_ws r1 = col # r2"
      by (auto simp: parse_members.simps [of cs] split: list.splits)
    from a sk0 q pc sk1 have col: "col = 58" and g: "length r2 < length cs"
      by (auto simp: parse_members.simps [of cs] split: if_splits)
    from a sk0 q pc sk1 col g obtain v r3 where pv: "parse_value (skip_ws r2) = Some (v, r3)"
      by (auto simp: parse_members.simps [of cs] split: option.splits)
    from a sk0 q pc sk1 col g pv obtain d r4 where sk3: "skip_ws r3 = d # r4"
      by (auto simp: parse_members.simps [of cs] split: list.splits)
    have nq: "\<not> q \<noteq> 34" using q by simp
    have nc: "col = 58 \<and> length r2 < length cs" using col g by simp
    from "3.IH"(1) [OF sk0 nq pc refl sk1 nc] pv
    have l3: "length r3 < length (skip_ws r2)" by blast
    have l4: "length r4 < length cs"
      using skip_ws_Cons_shorter [OF sk3] l3 length_skip_ws [of r2] g by simp
    show "length r < length cs"
    proof (cases "d = 125")
      case True
      with a sk0 q pc sk1 col g pv sk3 l4 show ?thesis
        by (auto simp: parse_members.simps [of cs])
    next
      case False
      with a sk0 q pc sk1 col g pv sk3 have d44: "d = 44"
        by (auto simp: parse_members.simps [of cs] split: if_splits)
      with a sk0 q pc sk1 col g pv sk3 False l4 obtain ms' where
        m: "parse_members r4 = Some (ms', r)"
        by (auto simp: parse_members.simps [of cs])
      from "3.IH"(2) [OF sk0 nq pc refl sk1 nc pv refl sk3 False] d44 l4 m
      have "length r < length r4" by blast
      with l4 show ?thesis by simp
    qed
  qed
qed

text \<open>The two length tests of the parser never fail: its equations without them.\<close>

lemma parse_elements_eq:
  "parse_elements cs =
     (case parse_value (skip_ws cs) of
        None \<Rightarrow> None
      | Some (v, r) \<Rightarrow>
          (case skip_ws r of
             [] \<Rightarrow> None
           | d # r' \<Rightarrow>
               if d = 93 then Some ([v], r')
               else if d = 44 then map_option (\<lambda>(vs, r''). (v # vs, r'')) (parse_elements r')
               else None))"
proof (cases "parse_value (skip_ws cs)")
  case None
  then show ?thesis by (simp add: parse_elements.simps [of cs])
next
  case (Some p)
  obtain v r where p: "p = (v, r)" by (cases p)
  from parse_shorter(1) Some p have l: "length r < length (skip_ws cs)" by blast
  show ?thesis
  proof (cases "skip_ws r")
    case Nil
    with Some p show ?thesis by (simp add: parse_elements.simps [of cs])
  next
    case (Cons d r')
    from skip_ws_Cons_shorter [OF Cons] l length_skip_ws [of cs]
    have "length r' < length cs" by simp
    with Some p Cons show ?thesis by (simp add: parse_elements.simps [of cs])
  qed
qed

lemma parse_members_eq:
  "parse_members cs =
     (case skip_ws cs of
        [] \<Rightarrow> None
      | q # r \<Rightarrow>
          if q \<noteq> 34 then None
          else
            (case parse_chars r of
               None \<Rightarrow> None
             | Some (k, r1) \<Rightarrow>
                 (case skip_ws r1 of
                    [] \<Rightarrow> None
                  | col # r2 \<Rightarrow>
                      if col = 58 then
                        (case parse_value (skip_ws r2) of
                           None \<Rightarrow> None
                         | Some (v, r3) \<Rightarrow>
                             (case skip_ws r3 of
                                [] \<Rightarrow> None
                              | d # r4 \<Rightarrow>
                                  if d = 125 then Some ([(k, v)], r4)
                                  else if d = 44 then
                                    map_option (\<lambda>(ms, r5). ((k, v) # ms, r5)) (parse_members r4)
                                  else None))
                      else None)))"
proof -
  have g1: "length r2 < length cs"
    if "skip_ws cs = q # r" "parse_chars r = Some (k, r1)" "skip_ws r1 = col # r2"
    for q r k r1 col r2
    using that parse_chars_shorter [of r k r1] skip_ws_Cons_shorter [of r1 col r2]
      skip_ws_Cons_shorter [of cs q r]
    by simp
  have g2: "length r4 < length cs"
    if "length r2 < length cs" "parse_value (skip_ws r2) = Some (v, r3)" "skip_ws r3 = d # r4"
    for r2 v r3 d r4
  proof -
    from parse_shorter(1) that(2) have "length r3 < length (skip_ws r2)" by blast
    with skip_ws_Cons_shorter [OF that(3)] length_skip_ws [of r2] that(1) show ?thesis by simp
  qed
  show ?thesis
    by (subst parse_members.simps)
       (auto split: list.splits option.splits dest: g1 g2)
qed

subsection \<open>Parsing two texts\<close>

lemma JSON_parse_throws: "JSON_parse s = Inl e \<Longrightarrow> e = SyntaxError"
  by (auto simp: JSON_parse_def split: option.splits if_splits)

lemma JSON_parse_open_brace: "JSON_parse (lit ''{'') = Inl SyntaxError"
  by (simp add: JSON_parse_def lit_def skip_ws_def is_ws_def parse_value.simps)

lemma JSON_parse_empty_array: "JSON_parse (lit ''[]'') = Inr (JArray [])"
  by (simp add: JSON_parse_def lit_def skip_ws_def is_ws_def parse_value.simps)

subsection \<open>The page of a user who is not a doctor\<close>

lemma fetchPatients_sends_list_requests:
  "filter (\<lambda>r. req_method r \<noteq> lit ''GET'') (fst (fetchPatients tok response d)) = []"
  by (simp add: fetchPatients_def api_fetchPatients_def split: prod.splits)

lemma fetchPatients_keeps_the_modal:
  "isModalOpen (snd (fetchPatients tok response d)) = isModalOpen d"
  by (simp add: fetchPatients_def api_fetchPatients_def split: prod.splits sum.splits)

lemma no_controls_without_canModify:
  "\<not> canModify u \<Longrightarrow> \<not> isModalOpen d \<Longrightarrow> controls u d = []"
  by (simp add: controls_def)

lemma only_search_is_enabled:
  assumes "\<not> canModify u" and "\<not> isModalOpen (dash s)"
  shows "enabled u s e = (\<exists>t. e = Search t)"
  using no_controls_without_canModify [OF assms] assms(2) by (cases e) simp_all

text \<open>What every state of such a page keeps: the modal is closed and only list requests went out.\<close>

lemma page_invariant:
  assumes "page_reaches u tok s" and "\<not> canModify u"
  shows "\<not> isModalOpen (dash s) \<and> filter (\<lambda>r. req_method r \<noteq> lit ''GET'') (sent s) = []"
  using assms(1)
proof (induction rule: page_reaches.induct)
  case mount
  show ?case by (simp add: Dashboard_mount_def)
next
  case (fetched s response)
  then show ?case
    by (simp add: fetchPatients_sends_list_requests fetchPatients_keeps_the_modal)
next
  case (event s e)
  then have closed: "\<not> isModalOpen (dash s)" by simp
  from event.hyps(2) only_search_is_enabled [OF assms(2) closed]
  obtain t where "e = Search t" by auto
  with event.IH show ?case by simp
qed

subsection \<open>The keys of the draft\<close>

lemma keys_set_member:
  "k \<in> set (map fst ms) \<Longrightarrow> map fst (set_member ms k v) = map fst ms"
  by (induction ms) force+

lemma form_keys_mem:
  "lit ''name'' \<in> set form_keys" "lit ''age'' \<in> set form_keys"
  "lit ''gender'' \<in> set form_keys" "lit ''work_type'' \<in> set form_keys"
  "lit ''residence_type'' \<in> set form_keys" "lit ''ever_married'' \<in> set form_keys"
  "lit ''bmi'' \<in> set form_keys" "lit ''avg_glucose_level'' \<in> set form_keys"
  "lit ''smoking_status'' \<in> set form_keys" "lit ''hypertension'' \<in> set form_keys"
  "lit ''heart_disease'' \<in> set form_keys" "lit ''stroke'' \<in> set form_keys"
  by (simp_all add: form_keys_def INITIAL_FORM_def)

lemma keys_handleChange:
  assumes "map fst (formData m) = form_keys" and "k \<in> set form_keys"
  shows "map fst (formData (handleChange k v m)) = form_keys"
proof -
  have "k \<in> set (map fst (formData m))"
    using assms by simp
  then show ?thesis
    by (simp add: handleChange_def keys_set_member assms(1))
qed

lemma keys_onChange:
  assumes "map fst (formData m) = form_keys"
  shows "map fst (formData (onChange c m)) = form_keys"
  by (cases c) (simp_all add: keys_handleChange [OF assms] form_keys_mem)

lemma keys_changes:
  "map fst (formData m) = form_keys \<Longrightarrow>
   map fst (formData (foldl (\<lambda>m' c. onChange c m') m changes)) = form_keys"
  by (induction changes arbitrary: m) (simp_all add: keys_onChange)

lemma no_id_in_form_keys: "lit ''id'' \<notin> set form_keys"
  by (simp add: form_keys_def INITIAL_FORM_def lit_eq_iff)

subsection \<open>The three create paths\<close>

lemma create_path_requests:
  assumes "truthy_string tok"
  shows "hd (fst (create_path tok changes response listResponse d m))
         = fst (addPatient (formData (foldl (\<lambda>m' c. onChange c m') (modal_effect None m) changes))
                  (the tok) response)"
  using assms
  by (simp add: create_path_def handleModalSubmit_def handleAdd_def Let_def
      split: prod.splits sum.splits)

lemma create_path_sends_no_id:
  assumes "truthy_string tok"
  shows "(let req = hd (fst (create_path tok changes response listResponse d m))
          in req_method req = lit ''POST''
             \<and> req_url req = PATIENT_API_URL @ lit ''/patients/''
             \<and> body_keys req = form_keys
             \<and> lit ''id'' \<notin> set (body_keys req))"
proof -
  let ?m2 = "foldl (\<lambda>m' c. onChange c m') (modal_effect None m) changes"
  have k: "map fst (formData ?m2) = form_keys"
    by (rule keys_changes) (simp add: modal_effect_def form_keys_def)
  have b: "body_keys (fst (addPatient (formData ?m2) (the tok) response)) = form_keys"
    by (simp add: addPatient_def body_keys_def k)
  have "lit ''id'' \<notin> set form_keys"
    by (rule no_id_in_form_keys)
  then show ?thesis
    unfolding Let_def create_path_requests [OF assms] b
    by (simp add: addPatient_def)
qed

lemma script_js_sends_no_id:
  assumes "canAdd (getCurrentPermissions userRole)"
  shows "(let req = hd (requests_of (handleFormSubmission userRole (form\<lparr>patientId := []\<rparr>)
                                       response listResponse))
          in req_method req = lit ''POST'' \<and> req_url req = API_BASE
             \<and> lit ''id'' \<notin> set (body_keys req))"
  using assms
  by (simp add: handleFormSubmission_def Let_def requests_of_def body_keys_def lit_eq_iff)

lemma prototype_makes_the_id:
  assumes "canAdd (getCurrentPermissions userRole)"
  shows "map hms_id (the (snd (handleFormSubmission_local userRole (form\<lparr>patientId := []\<rparr>) stored)))
         = map hms_id (loadPatients stored) @ [generatePatientId (loadPatients stored)]"
  using assms by (simp add: handleFormSubmission_local_def Let_def)

lemma generatePatientId_sample: "generatePatientId initialPatients = lit ''P00457''"
proof -
  have ne: "initialPatients \<noteq> []"
    by (simp add: initialPatients_def)
  have l: "hms_id (last initialPatients) = lit ''P00456''"
    by (simp add: initialPatients_def)
  have r: "remove1 80 (lit ''P00456'') = lit ''00456''"
    by (simp add: lit_def)
  have n: "parseInt (lit ''00456'') = Some 456"
    by (simp add: parseInt_def lit_def is_StrWhiteSpaceChar_def is_digit_def digits_value_def)
  have t: "int_toString 457 = lit ''457''"
    by (simp add: int_toString_def lit_def)
  show ?thesis
    unfolding generatePatientId_def Let_def l r n
    by (simp add: ne t padStart_def) (simp add: lit_def numeral_2_eq_2)
qed

section \<open>The authorization policy\<close>

text \<open>
  C1, as the specification states it, at the table of script.js: the policy of the
  role "doctor" (privilegedEditor) would grant all four operations. The table grants
  it view and add only, so it differs from the reference table in the edit column.
\<close>

theorem doctor_cannot_edit_in_script_js:
  "canEdit (getCurrentPermissions (Some (Role_name privilegedEditor))) = False
   \<and> canEdit (AuthorizationPolicy privilegedEditor) = True"
  by (simp add: getCurrentPermissions_def permissions_get_def role_key_def permissions_def
      lit_eq_iff)

text \<open>
  C1, amended. The gate of the Dashboard is a function of the role alone and equals
  the reference table at both roles: a user is granted view only, a doctor all four
  operations. The older table of script.js has the three keys administrator, doctor
  and viewer; it equals the reference table at the role "user" (through the fallback
  to viewer) and grants the role "doctor" view and add only.
\<close>

theorem policy_at_the_two_gates:
  "Dashboard_gate (User_json (u\<lparr>role := Role_name r\<rparr>)) = AuthorizationPolicy r
   \<and> getCurrentPermissions (Some (Role_name restrictedViewer))
       = AuthorizationPolicy restrictedViewer
   \<and> getCurrentPermissions (Some (Role_name privilegedEditor))
       = \<lparr>canView = True, canAdd = True, canEdit = False, canDelete = False\<rparr>
   \<and> map fst permissions = [lit ''administrator'', lit ''doctor'', lit ''viewer'']"
  by (cases r)
     (simp_all add: Dashboard_gate_def canModify_def User_json_def getCurrentPermissions_def
       permissions_get_def role_key_def permissions_def Object_prototype_def lit_eq_iff)

text \<open>
  C10. For a role that is not a key of the table the lookup is to return the viewer
  set, with canView true. It does so for \<open>null\<close> and for a role such as "nurse".
  At the role "constructor", which is not a key of the table either, it does not:
  the lookup finds the property every object inherits, which is truthy, so the
  fallback to viewer is not taken and none of the four flags is set. View is denied
  as well.
\<close>

theorem inherited_name_is_not_viewer:
  "map_of permissions (lit ''constructor'') = None
   \<and> getCurrentPermissions (Some (lit ''constructor''))
       = \<lparr>canView = False, canAdd = False, canEdit = False, canDelete = False\<rparr>
   \<and> map_of permissions (lit ''nurse'') = None
   \<and> getCurrentPermissions (Some (lit ''nurse''))
       = \<lparr>canView = True, canAdd = False, canEdit = False, canDelete = False\<rparr>
   \<and> getCurrentPermissions None
       = \<lparr>canView = True, canAdd = False, canEdit = False, canDelete = False\<rparr>"
  by (simp add: getCurrentPermissions_def permissions_get_def role_key_def permissions_def
      Object_prototype_def lit_eq_iff)

section \<open>The session\<close>



text \<open>
  C7, as stated, at two stored sessions with the credential "abc". With the identity
  entry \<open>{\<close>, which is not JSON, the claim gives a session that is not
  authenticated and no failure; the mount throws the \<open>SyntaxError\<close> of
  \<open>JSON.parse\<close>. With the identity entry \<open>[]\<close>, which is no identity, the claim
  gives a session that is not authenticated; the session is authenticated.
\<close>

theorem malformed_identity_entry:
  "AuthProvider_init \<lparr>token_item = Some (lit ''abc''), user_item = Some (Text (lit ''{''))\<rparr>
     = Inl SyntaxError
   \<and> map_sum id (\<lambda>a. isAuthenticated (AuthProvider_value a))
        (AuthProvider_init \<lparr>token_item = Some (lit ''abc''), user_item = Some (Text (lit ''[]''))\<rparr>)
     = Inr True"
  by (simp add: AuthProvider_init_def JSON_parse_open_brace JSON_parse_empty_array
      AuthProvider_value_def truthy_string_def lit_eq_iff)
     (simp add: lit_def)

text \<open>
  C7, amended. The mount fails exactly when the identity entry is a non-empty text
  that \<open>JSON.parse\<close> rejects, and it fails with that \<open>SyntaxError\<close>. When it
  returns, the credential is the stored one, the identity is \<open>null\<close> for a missing
  or empty entry and otherwise the value the entry parses to, whatever its shape; the
  session is authenticated exactly when the stored credential is a non-empty string
  and that value is truthy, and never when either entry is missing.
\<close>

theorem restore_outcome:
  "(case AuthProvider_init st of
      Inl e \<Rightarrow>
        e = SyntaxError
        \<and> (\<exists>s. user_item st = Some (Text s) \<and> s \<noteq> [] \<and> JSON_parse s = Inl SyntaxError)
    | Inr a \<Rightarrow>
        token a = token_item st
        \<and> (if user_item st = None \<or> user_item st = Some (Text []) then user a = JNull
           else user_item st = Some (Stringified (user a))
                \<or> (\<exists>s. user_item st = Some (Text s) \<and> JSON_parse s = Inr (user a)))
        \<and> isAuthenticated (AuthProvider_value a)
            = (if token_item st = None \<or> user_item st = None then False
               else truthy_string (token_item st) \<and> truthy (user a)))"
proof (cases "user_item st")
  case None
  then show ?thesis
    by (simp add: AuthProvider_init_def AuthProvider_value_def)
next
  case (Some it)
  show ?thesis
  proof (cases it)
    case (Text s)
    show ?thesis
    proof (cases "s = []")
      case True
      with Some Text show ?thesis
        by (simp add: AuthProvider_init_def AuthProvider_value_def truthy_string_def)
    next
      case False
      show ?thesis
      proof (cases "JSON_parse s")
        case (Inl e)
        with JSON_parse_throws [OF Inl] Some Text False show ?thesis
          by (simp add: AuthProvider_init_def)
      next
        case (Inr v)
        with Some Text False show ?thesis
          by (simp add: AuthProvider_init_def AuthProvider_value_def truthy_string_def)
      qed
    qed
  next
    case (Stringified v)
    with Some show ?thesis
      by (simp add: AuthProvider_init_def AuthProvider_value_def truthy_string_def)
  qed
qed

section \<open>The mutations\<close>

text \<open>
  C3. In script.js a create or an update under a role whose table entry denies it
  ends with the alert "Permission Denied" and sends no request; so does a create
  under the role "user". On the Dashboard a user who is not a doctor cannot issue
  such an attempt at all: in every state the page reaches the modal is closed, no
  Add, Edit, Delete or Save control is rendered, the search box is the only thing
  that can be used, and the page has sent list requests only.
\<close>

theorem denied_mutation_sends_nothing:
  assumes "\<not> (if patientId form \<noteq> [] then canEdit (getCurrentPermissions userRole)
               else canAdd (getCurrentPermissions userRole))"
      and "\<not> canModify u"
      and "page_reaches u tok s"
  shows "handleFormSubmission userRole form response listResponse
           = [Alert (if patientId form \<noteq> []
                     then lit ''Permission Denied: You cannot update records.''
                     else lit ''Permission Denied: You cannot add new records.'')]
         \<and> requests_of (handleFormSubmission userRole form response listResponse) = []
         \<and> handleFormSubmission (Some (Role_name restrictedViewer)) (form\<lparr>patientId := []\<rparr>)
              response listResponse
           = [Alert (lit ''Permission Denied: You cannot add new records.'')]
         \<and> \<not> isModalOpen (dash s)
         \<and> controls u (dash s) = []
         \<and> enabled u s e = (\<exists>t. e = Search t)
         \<and> filter (\<lambda>r. req_method r \<noteq> lit ''GET'') (sent s) = []"
proof -
  have 1: "handleFormSubmission userRole form response listResponse
           = [Alert (if patientId form \<noteq> []
                     then lit ''Permission Denied: You cannot update records.''
                     else lit ''Permission Denied: You cannot add new records.'')]"
    using assms(1) by (simp add: handleFormSubmission_def Let_def split: if_splits)
  have 2: "handleFormSubmission (Some (Role_name restrictedViewer)) (form\<lparr>patientId := []\<rparr>)
              response listResponse
           = [Alert (lit ''Permission Denied: You cannot add new records.'')]"
    unfolding handleFormSubmission_def Let_def viewer_permissions by simp
  from page_invariant [OF assms(3) assms(2)]
  have closed: "\<not> isModalOpen (dash s)"
    and gets: "filter (\<lambda>r. req_method r \<noteq> lit ''GET'') (sent s) = []"
    by simp_all
  have 3: "controls u (dash s) = []"
    by (rule no_controls_without_canModify [OF assms(2) closed])
  have 4: "enabled u s e = (\<exists>t. e = Search t)"
    by (rule only_search_is_enabled [OF assms(2) closed])
  from 1 2 3 4 closed gets show ?thesis by (simp add: requests_of_def)
qed

theorem denied_mutation_sends_nothing_witness:
  "(let form = \<lparr>patientId = [], patientName = lit ''Ann Lee'', patientDOB = lit ''1990-01-01'',
                 patientGender = lit ''female'', patientAddress = lit ''1 High St'',
                 patientWard = lit ''ICU'', admissionDate_input = lit ''2025-12-02'',
                 referringDoctor = lit ''Dr. Chen''\<rparr>;
        u = User_json \<lparr>user_id = 2, username = lit ''bob'', email = lit ''bob@example.com'',
                       role = lit ''user''\<rparr>;
        s = step (Some (lit ''t'')) (Search (lit ''jane''))
              (Dashboard_mount\<lparr>dash := snd (fetchPatients (Some (lit ''t'')) (Ok (Some []))
                                            (dash Dashboard_mount)),
                                sent := sent Dashboard_mount
                                  @ fst (fetchPatients (Some (lit ''t'')) (Ok (Some []))
                                          (dash Dashboard_mount))\<rparr>)
    in \<not> canAdd (getCurrentPermissions (Some (lit ''user''))) \<and> \<not> canModify u
       \<and> page_reaches u (Some (lit ''t'')) s
       \<and> handleFormSubmission (Some (lit ''user'')) form Rejected Rejected
           = [Alert (lit ''Permission Denied: You cannot add new records.'')]
       \<and> requests_of (handleFormSubmission (Some (lit ''user'')) form Rejected Rejected) = []
       \<and> \<not> isModalOpen (dash s) \<and> controls u (dash s) = []
       \<and> \<not> enabled u s ClickAdd \<and> map req_method (sent s) = [lit ''GET''])"
proof -
  let ?form = "\<lparr>patientId = [], patientName = lit ''Ann Lee'', patientDOB = lit ''1990-01-01'',
                 patientGender = lit ''female'', patientAddress = lit ''1 High St'',
                 patientWard = lit ''ICU'', admissionDate_input = lit ''2025-12-02'',
                 referringDoctor = lit ''Dr. Chen''\<rparr>"
  let ?u = "User_json \<lparr>user_id = 2, username = lit ''bob'', email = lit ''bob@example.com'',
                       role = lit ''user''\<rparr>"
  let ?tok = "Some (lit ''t'')"
  let ?s1 = "Dashboard_mount\<lparr>dash := snd (fetchPatients ?tok (Ok (Some [])) (dash Dashboard_mount)),
                             sent := sent Dashboard_mount
                               @ fst (fetchPatients ?tok (Ok (Some [])) (dash Dashboard_mount))\<rparr>"
  let ?s = "step ?tok (Search (lit ''jane'')) ?s1"
  have p: "\<not> canAdd (getCurrentPermissions (Some (lit ''user'')))"
    using viewer_permissions by simp
  then have h1: "\<not> (if patientId ?form \<noteq> [] then canEdit (getCurrentPermissions (Some (lit ''user'')))
                    else canAdd (getCurrentPermissions (Some (lit ''user''))))"
    by simp
  have h2: "\<not> canModify ?u"
    by (simp add: canModify_def User_json_def lit_eq_iff)
  have "page_reaches ?u ?tok ?s1"
    by (rule page_reaches.fetched) (rule page_reaches.mount)
  then have h3: "page_reaches ?u ?tok ?s"
    by (rule page_reaches.event) simp
  have m: "map req_method (sent ?s) = [lit ''GET'']"
    by (simp add: Dashboard_mount_def fetchPatients_def api_fetchPatients_def truthy_string_def
        lit_def)
  from denied_mutation_sends_nothing [OF h1 h2 h3, of Rejected Rejected ClickAdd] p h2 h3 m
  show ?thesis
    unfolding Let_def by (simp add: requests_of_def)
qed

text \<open>
  C4, as stated, at the create path of the localStorage prototype: the client would
  never make up an identifier. A doctor who adds a record to the sample data gets a
  record whose identifier \<open>P00457\<close> the client computed from the last one.
\<close>

theorem prototype_synthesizes_the_id:
  "map hms_id (the (snd (handleFormSubmission_local (Some (lit ''doctor''))
       \<lparr>patientId = [], patientName = lit ''Ann Lee'', patientDOB = lit ''1990-01-01'',
        patientGender = lit ''female'', patientAddress = lit ''1 High St'',
        patientWard = lit ''ICU'', admissionDate_input = lit ''2025-12-02'',
        referringDoctor = lit ''Dr. Chen''\<rparr> None)))
   = [lit ''P00123'', lit ''P00456'', lit ''P00457'']"
  by (simp add: handleFormSubmission_local_def Let_def doctor_permissions loadPatients_def
      generatePatientId_sample)
     (simp add: initialPatients_def)

text \<open>
  C4, amended. On the two create paths that talk to a record store the client sends
  no identifier: the Dashboard sends one POST to the collection whose body has the
  twelve keys of the form and no \<open>id\<close>, whatever was typed, and script.js sends one
  POST to the collection without an \<open>id\<close>. The localStorage prototype has no
  store: its create path appends a record whose identifier is
  \<open>generatePatientId\<close> of the stored list.
\<close>

theorem create_leaves_the_id_to_the_store:
  assumes "truthy_string tok" and "canAdd (getCurrentPermissions userRole)"
  shows "(let req = hd (fst (create_path tok changes response listResponse d m))
          in req_method req = lit ''POST''
             \<and> req_url req = PATIENT_API_URL @ lit ''/patients/''
             \<and> body_keys req = form_keys
             \<and> lit ''id'' \<notin> set (body_keys req))
     \<and> (let req = hd (requests_of (handleFormSubmission userRole (form\<lparr>patientId := []\<rparr>)
                                       response' listResponse'))
        in req_method req = lit ''POST'' \<and> req_url req = API_BASE
           \<and> lit ''id'' \<notin> set (body_keys req))
     \<and> map hms_id (the (snd (handleFormSubmission_local userRole (form\<lparr>patientId := []\<rparr>) stored)))
         = map hms_id (loadPatients stored) @ [generatePatientId (loadPatients stored)]"
  using create_path_sends_no_id [OF assms(1)] script_js_sends_no_id [OF assms(2)]
    prototype_makes_the_id [OF assms(2)]
  by blast

theorem create_leaves_the_id_to_the_store_witness:
  "(let req = hd (fst (create_path (Some (lit ''t'')) [Name (lit ''Jane Doe''), Age 61]
                         FetchFailed FetchFailed
                         \<lparr>patients = [], isLoading_d = False, searchTerm = [],
                          isModalOpen = False, editingPatient = None, error = []\<rparr>
                         \<lparr>formData = [], loading = False, error_m = []\<rparr>))
    in truthy_string (Some (lit ''t'')) \<and> canAdd (getCurrentPermissions (Some (lit ''doctor'')))
       \<and> req_method req = lit ''POST''
       \<and> body_keys req
           = map lit [''name'', ''gender'', ''age'', ''hypertension'', ''heart_disease'',
                      ''ever_married'', ''work_type'', ''residence_type'',
                      ''avg_glucose_level'', ''bmi'', ''smoking_status'', ''stroke'']
       \<and> lit ''id'' \<notin> set (body_keys req))"
proof -
  have h1: "truthy_string (Some (lit ''t''))"
    by (simp add: truthy_string_def lit_def)
  have h2: "canAdd (getCurrentPermissions (Some (lit ''doctor'')))"
    by (simp add: doctor_permissions)
  have k: "form_keys
           = map lit [''name'', ''gender'', ''age'', ''hypertension'', ''heart_disease'',
                      ''ever_married'', ''work_type'', ''residence_type'',
                      ''avg_glucose_level'', ''bmi'', ''smoking_status'', ''stroke'']"
    by (simp add: form_keys_def INITIAL_FORM_def)
  from create_leaves_the_id_to_the_store [OF h1 h2] h1 h2 show ?thesis
    unfolding Let_def k by blast
qed

section \<open>The cache and its view\<close>

text \<open>
  C5, as stated, at a cache of one record: the claim gives two counts that keep the
  two fields apart. For a record with no prior stroke and a positive prediction the
  card counts 0 and the slice "Stroke" counts 1; for a record with a prior stroke and
  a prediction of 0 the same slice counts 1 as well, and each of the two records is
  also counted under "No Stroke". So the slice mixes the two fields.
\<close>

theorem stroke_slice_mixes_the_two_fields:
  "(let p = \<lparr>patient_id = Some 1, name = lit ''Jane Doe'', age = 61, gender = lit ''Female'',
             hypertension = JNumber 0, heart_disease = JNumber 0, ever_married = lit ''Yes'',
             work_type = lit ''Private'', residence_type = lit ''Urban'',
             avg_glucose_level = 100, bmi = 25, smoking_status = lit ''never smoked'',
             stroke_prediction = Some 1, stroke = Some 0\<rparr>
    in strokeRiskObserved [p] = 0 \<and> strokeStats [p] = [(lit ''Stroke'', 1), (lit ''No Stroke'', 1)]
       \<and> strokeStats [p\<lparr>stroke_prediction := Some 0, stroke := Some 1\<rparr>]
           = [(lit ''Stroke'', 1), (lit ''No Stroke'', 1)])"
  by (simp add: strokeRiskObserved_def strokeStats_def)

text \<open>
  C5, amended. The card "Stroke Risk Observed" counts the records with stroke = 1
  and nothing else. There is no count of the predictions alone: the slice "Stroke"
  counts the records with stroke = 1 or a prediction of exactly 1, that is the count
  of the card plus the records without a prior stroke whose prediction is 1, and the
  slice "No Stroke" counts the records with stroke = 0, a prediction of 0 or no
  prediction.
\<close>

theorem stroke_counts:
  "strokeRiskObserved ps = length (filter (\<lambda>p. stroke p = Some 1) ps)
   \<and> snd (strokeStats ps ! 0)
       = strokeRiskObserved ps
         + length (filter (\<lambda>p. stroke p \<noteq> Some 1 \<and> stroke_prediction p = Some 1) ps)
   \<and> snd (strokeStats ps ! 1)
       = length (filter (\<lambda>p. stroke p = Some 0 \<or> stroke_prediction p = Some 0
                              \<or> stroke_prediction p = None) ps)"
proof -
  have "length (filter (\<lambda>p. stroke p = Some 1 \<or> stroke_prediction p = Some 1) ps)
        = length (filter (\<lambda>p. stroke p = Some 1) ps)
          + length (filter (\<lambda>p. stroke p \<noteq> Some 1 \<and> stroke_prediction p = Some 1) ps)"
    by (induction ps) auto
  then show ?thesis by (simp add: strokeStats_def strokeRiskObserved_def)
qed

text \<open>
  C6. A refresh fails when there is no token or when the list call does not deliver
  a list. Whatever the cache holds, it holds the same records after a failing
  refresh, and the failure is reported in the error message, which is then not
  empty; the loading flag is cleared.
\<close>

theorem failing_refresh_keeps_the_cache:
  assumes "\<not> (truthy_string tok \<and> (\<exists>data. response = Ok (Some data)))"
  shows "patients (snd (fetchPatients tok response d)) = patients d
         \<and> error (snd (fetchPatients tok response d)) \<noteq> []
         \<and> isLoading_d (snd (fetchPatients tok response d)) = False"
proof (cases "truthy_string tok")
  case False
  then show ?thesis by (simp add: fetchPatients_def lit_def)
next
  case True
  with assms have nodata: "\<forall>data. response \<noteq> Ok (Some data)" by simp
  from True have t: "the tok \<noteq> []" by (cases tok) (simp_all add: truthy_string_def)
  from nodata obtain e where "settle (lit ''Failed to fetch patients'') response = Inl e"
    by (cases response) (auto simp: settle_def split: option.splits)
  with True t show ?thesis
    by (simp add: fetchPatients_def api_fetchPatients_def lit_def)
qed

theorem failing_refresh_keeps_the_cache_witness:
  "(let d = \<lparr>patients = [\<lparr>patient_id = Some 1, name = lit ''Jane Doe'', age = 61,
                           gender = lit ''Female'', hypertension = JNumber 0,
                           heart_disease = JNumber 0, ever_married = lit ''Yes'',
                           work_type = lit ''Private'', residence_type = lit ''Urban'',
                           avg_glucose_level = 100, bmi = 25,
                           smoking_status = lit ''never smoked'',
                           stroke_prediction = None, stroke = Some 0\<rparr>],
             isLoading_d = False, searchTerm = [], isModalOpen = False,
             editingPatient = None, error = []\<rparr>;
        d' = snd (fetchPatients (Some (lit ''t'')) (NotOk None) d)
    in \<not> (truthy_string (Some (lit ''t'')) \<and> (\<exists>data. NotOk None = Ok (Some data)))
       \<and> patients d' = patients d \<and> error d' \<noteq> [] \<and> isLoading_d d' = False)"
  using failing_refresh_keeps_the_cache [of "Some (lit ''t'')" "NotOk None"]
  by (simp add: Let_def)

text \<open>
  C8. Over the empty cache the total is 0 and the two means are the number 0, not
  \<open>NaN\<close>: the divisor is taken as 1 there, and over no cache is it 0.
\<close>

theorem aggregate_of_the_empty_cache:
  "totalPatients [] = 0 \<and> avgGlucoseLevel [] = Finite 0 \<and> avgAge [] = Finite 0
   \<and> length_or_1 [] = 1 \<and> length_or_1 ps \<noteq> 0"
  by (simp add: totalPatients_def avgGlucoseLevel_def avgAge_def js_divide_def length_or_1_def)

text \<open>
  C9. With the empty query the filter returns the whole cache, every record in its
  place. The filter is a function of the cache and the query: it returns a list and
  has no state to change.
\<close>

theorem filter_with_the_empty_query:
  "filteredPatients ps [] = ps"
  by (simp add: filteredPatients_def toLowerCase_def js_includes_empty)

end
